theory Spec2Isabelle
  imports Complex_Main
begin

section \<open>Text\<close>

text \<open>
  Text is a \<^typ>\<open>string\<close>: a list of characters, each standing for one code point
  in the range U+0000 .. U+00FF. In that range one character is one UTF-16 code unit,
  so \<^const>\<open>length\<close> is JavaScript's \<open>.length\<close>. Code points above U+00FF are outside
  the model.

  Two different engines normalise a question. The JavaScript of \<open>database.js\<close> calls
  \<open>question.toLowerCase().trim()\<close>; the SQL schema computes the generated column
  \<open>LOWER(TRIM(question))\<close> inside SQLite. They are modelled separately, each with the
  behaviour of its own engine.
\<close>

subsection \<open>JavaScript: \<open>String.prototype.toLowerCase\<close> and \<open>trim\<close>\<close>

text \<open>
  \<open>toLowerCase\<close> follows the Unicode case mapping: within U+0000 .. U+00FF it moves
  \<open>A\<close> .. \<open>Z\<close> and U+00C0 .. U+00DE (U+00D7, the multiplication sign, apart) up by 32.
\<close>

definition js_is_upper :: "char \<Rightarrow> bool" where
  "js_is_upper c =
     (let n = (of_char c :: nat)
      in (65 \<le> n \<and> n \<le> 90) \<or> (192 \<le> n \<and> n \<le> 222 \<and> n \<noteq> 215))"

definition js_lower_char :: "char \<Rightarrow> char" where
  "js_lower_char c = (if js_is_upper c then char_of (of_char c + 32 :: nat) else c)"

definition toLowerCase :: "string \<Rightarrow> string" where
  "toLowerCase s = map js_lower_char s"

text \<open>
  \<open>trim\<close> removes white space and line terminators from both ends: TAB, LF, VT, FF,
  CR, SPACE and NO-BREAK SPACE are the ones below U+0100.
\<close>

definition js_is_whitespace :: "char \<Rightarrow> bool" where
  "js_is_whitespace c = (of_char c \<in> {9, 10, 11, 12, 13, 32, 160 :: nat})"

definition trim :: "string \<Rightarrow> string" where
  "trim s = rev (dropWhile js_is_whitespace (rev (dropWhile js_is_whitespace s)))"

text \<open>\<open>question.toLowerCase().trim()\<close>, as written in \<open>findResponse\<close>,
  \<open>upsertResponse\<close> and \<open>searchResponses\<close>.\<close>

definition normalize :: "string \<Rightarrow> string" where
  "normalize q = trim (toLowerCase q)"

subsection \<open>SQLite: \<open>LOWER\<close>, \<open>TRIM\<close> and \<open>LIKE\<close>\<close>

text \<open>
  The built-in \<open>LOWER\<close> folds the 26 ASCII letters only, and the one-argument \<open>TRIM\<close>
  removes spaces (U+0020) only.
\<close>

definition sql_is_upper :: "char \<Rightarrow> bool" where
  "sql_is_upper c = (let n = (of_char c :: nat) in 65 \<le> n \<and> n \<le> 90)"

definition sql_lower_char :: "char \<Rightarrow> char" where
  "sql_lower_char c = (if sql_is_upper c then char_of (of_char c + 32 :: nat) else c)"

definition sql_LOWER :: "string \<Rightarrow> string" where
  "sql_LOWER s = map sql_lower_char s"

definition sql_is_space :: "char \<Rightarrow> bool" where
  "sql_is_space c = (of_char c = (32 :: nat))"

definition sql_TRIM :: "string \<Rightarrow> string" where
  "sql_TRIM s = rev (dropWhile sql_is_space (rev (dropWhile sql_is_space s)))"

text \<open>
  \<open>x LIKE p\<close> with the default \<open>case_sensitive_like = OFF\<close> (which
  \<open>initializeTables\<close> sets again): \<open>%\<close> in the pattern matches any run of
  characters, \<open>_\<close> matches any one character, every other character matches itself up
  to the case of ASCII letters. The first argument is the pattern.
\<close>

fun like_match :: "string \<Rightarrow> string \<Rightarrow> bool" where
  "like_match [] [] = True"
| "like_match [] (c # cs) = False"
| "like_match (p # ps) [] = (p = CHR ''%'' \<and> like_match ps [])"
| "like_match (p # ps) (c # cs) =
     (if p = CHR ''%'' then like_match ps (c # cs) \<or> like_match (p # ps) cs
      else (p = CHR ''_'' \<or> sql_lower_char p = sql_lower_char c) \<and> like_match ps cs)"

text \<open>
  The \<open>LIKE\<close> function reads both of its operands as C strings: what follows the
  first U+0000 of the pattern or of the text takes no part in the match. (\<open>LOWER\<close>,
  \<open>TRIM\<close> and \<open>=\<close> work on the whole value.)
\<close>

definition c_string :: "string \<Rightarrow> string" where
  "c_string s = takeWhile (\<lambda>c. c \<noteq> CHR 0x00) s"

definition sql_LIKE :: "string \<Rightarrow> string \<Rightarrow> bool" where
  "sql_LIKE pattern s = like_match (c_string pattern) (c_string s)"

text \<open>
  The length SQLite measures is the number of bytes of the UTF-8 form: one byte for a
  code point below U+0080 and two for the others of the model.
\<close>

definition utf8_length :: "string \<Rightarrow> int" where
  "utf8_length s = sum_list (map (\<lambda>c. if of_char c < (128 :: nat) then 1 else 2) s)"

subsection \<open>SQLite: the errors of the statements\<close>

text \<open>
  \<open>cannot INSERT into generated column\<close> is raised when a statement is compiled,
  \<open>datatype mismatch\<close> when a \<open>LIMIT\<close> or an \<open>OFFSET\<close> is not a 64-bit integer, and
  \<open>LIKE or GLOB pattern too complex\<close> when \<open>LIKE\<close> is called with a pattern of more
  than \<open>SQLITE_MAX_LIKE_PATTERN_LENGTH\<close> bytes.
\<close>

datatype sqlite_error =
    cannot_INSERT_into_generated_column string
  | datatype_mismatch
  | LIKE_or_GLOB_pattern_too_complex

definition SQLITE_MAX_LIKE_PATTERN_LENGTH :: int where
  "SQLITE_MAX_LIKE_PATTERN_LENGTH = 50000"

text \<open>
  A JavaScript number bound to \<open>LIMIT\<close> or \<open>OFFSET\<close> is accepted when it is a
  whole number strictly between \<open>-2^63\<close> and \<open>2^63\<close>.
\<close>

definition sql_must_be_int :: "int \<Rightarrow> bool" where
  "sql_must_be_int n = (- (2 ^ 63) < n \<and> n < 2 ^ 63)"

section \<open>The tables of \<open>initializeTables\<close>\<close>

text \<open>
  A row of \<open>conversations\<close>. Timestamps (\<open>CURRENT_TIMESTAMP\<close>) are seconds on the
  database clock; the text form \<open>YYYY-MM-DD HH:MM:SS\<close> that SQLite stores orders the
  same way. The column \<open>normalized_question\<close> is \<open>GENERATED ALWAYS AS
  (LOWER(TRIM(question))) VIRTUAL\<close>: it is not stored, it is computed from the row.
\<close>

record conversation =
  conv_id :: nat
  question :: string
  answer :: string
  teach_count :: int
  is_active :: bool
  created_at :: nat
  updated_at :: nat

definition normalized_question :: "conversation \<Rightarrow> string" where
  "normalized_question r = sql_LOWER (sql_TRIM (question r))"

text \<open>A row of \<open>logs\<close>; \<open>response\<close> is the one column the program writes NULL to.\<close>

record log_entry =
  log_id :: nat
  log_question :: string
  response :: "string option"
  is_taught :: bool
  response_time_ms :: int
  user_agent :: string
  ip_address :: string
  timestamp :: nat

text \<open>
  The database: both tables in rowid order, and the two \<open>AUTOINCREMENT\<close> counters
  (the largest rowid handed out so far, kept by SQLite in \<open>sqlite_sequence\<close>).
\<close>

record database =
  conversations :: "conversation list"
  logs :: "log_entry list"
  conversations_seq :: nat
  logs_seq :: nat

text \<open>The database file right after \<open>initializeTables\<close> has created it.\<close>

definition fresh_database :: database where
  "fresh_database = \<lparr>conversations = [], logs = [], conversations_seq = 0, logs_seq = 0\<rparr>"

section \<open>\<open>findResponse\<close>\<close>

text \<open>
  \<open>SELECT * FROM conversations WHERE normalized_question = ? AND is_active = 1 LIMIT 1\<close>
  with the JavaScript-normalised question as the parameter. \<open>db.get\<close> yields the
  first row of the scan, or \<open>undefined\<close> (here \<^const>\<open>None\<close>) when there is none.
  The column names of a row are constants here, so the parameters \<open>question\<close> and
  \<open>answer\<close> of the source are written \<open>q\<close> and \<open>a\<close>.
\<close>

definition findResponse :: "database \<Rightarrow> string \<Rightarrow> conversation option" where
  "findResponse db q =
     (let normalizedQuestion = normalize q
      in find (\<lambda>r. normalized_question r = normalizedQuestion \<and> is_active r)
           (conversations db))"

section \<open>\<open>searchResponses\<close>\<close>

text \<open>
  \<open>LIMIT ? OFFSET ?\<close>: a negative offset counts as 0 and a negative limit as no
  limit.
\<close>

definition sql_limit_offset :: "int \<Rightarrow> int \<Rightarrow> 'a list \<Rightarrow> 'a list" where
  "sql_limit_offset limit offset rows =
     (let rest = drop (nat offset) rows
      in if limit < 0 then rest else take (nat limit) rest)"

text \<open>
  \<open>SELECT * FROM conversations WHERE normalized_question LIKE ? OR answer LIKE ?
  AND is_active = 1 ORDER BY teach_count DESC LIMIT ? OFFSET ?\<close>.
  In SQL \<open>AND\<close> binds tighter than \<open>OR\<close>, so the \<open>WHERE\<close> clause reads
  \<open>normalized_question LIKE ? OR (answer LIKE ? AND is_active = 1)\<close>.
  SQLite leaves the order of rows with equal \<open>teach_count\<close> open; the model keeps
  them in rowid order (\<^const>\<open>sort_key\<close> is stable).

  Before it reads a row SQLite checks the limit, stops with no rows when the limit is
  0, and checks the offset. Then it scans the table, and the first row it reads calls
  \<open>LIKE\<close>, which refuses a pattern that is too long; on an empty table \<open>LIKE\<close> is
  not called. \<open>db.all\<close> passes an error to the callback, which rejects the promise.
\<close>

definition search_where :: "string \<Rightarrow> conversation \<Rightarrow> bool" where
  "search_where normalizedSearch r =
     (sql_LIKE normalizedSearch (normalized_question r)
      \<or> (sql_LIKE normalizedSearch (answer r) \<and> is_active r))"

definition searchResponses ::
  "database \<Rightarrow> string \<Rightarrow> int \<Rightarrow> int \<Rightarrow> sqlite_error + conversation list" where
  "searchResponses db searchTerm limit offset =
     (let normalizedSearch = ''%'' @ normalize searchTerm @ ''%''
      in if \<not> sql_must_be_int limit then Inl datatype_mismatch
         else if limit = 0 then Inr []
         else if \<not> sql_must_be_int offset then Inl datatype_mismatch
         else if conversations db \<noteq> []
                 \<and> SQLITE_MAX_LIKE_PATTERN_LENGTH < utf8_length normalizedSearch then
           Inl LIKE_or_GLOB_pattern_too_complex
         else
           Inr (sql_limit_offset limit offset
                  (sort_key (\<lambda>r. - teach_count r)
                     (filter (search_where normalizedSearch) (conversations db)))))"

section \<open>\<open>getStats\<close>\<close>

text \<open>
  The aggregates \<open>MAX\<close> and \<open>AVG\<close> are NULL (\<^const>\<open>None\<close>) over no rows.
  \<open>AVG\<close> is the sum over the count; SQLite returns it as a double, the model keeps
  the exact quotient.
\<close>

definition sql_MAX :: "nat list \<Rightarrow> nat option" where
  "sql_MAX xs = (case xs of [] \<Rightarrow> None | x # ys \<Rightarrow> Some (fold max ys x))"

definition sql_AVG :: "int list \<Rightarrow> rat option" where
  "sql_AVG xs = (if xs = [] then None else Some (of_int (sum_list xs) / of_nat (length xs)))"

record stats_row =
  total_responses :: nat
  total_interactions :: nat
  taught_responses :: nat
  last_taught :: "nat option"
  avg_response_time :: "rat option"

definition getStats :: "database \<Rightarrow> stats_row" where
  "getStats db =
     \<lparr>total_responses = length (conversations db),
      total_interactions = length (logs db),
      taught_responses = length (filter is_taught (logs db)),
      last_taught = sql_MAX (map created_at (conversations db)),
      avg_response_time =
        sql_AVG (map response_time_ms (filter (\<lambda>l. response_time_ms l > 0) (logs db)))\<rparr>"

section \<open>\<open>logInteraction\<close>\<close>

text \<open>
  \<open>INSERT INTO logs (question, response, is_taught, response_time_ms, user_agent,
  ip_address) VALUES (?, ?, ?, ?, ?, ?)\<close>; resolves with \<open>this.lastID\<close>. The
  last parameter is the database clock, which fills \<open>timestamp\<close>.
\<close>

definition logInteraction ::
  "database \<Rightarrow> string \<Rightarrow> string option \<Rightarrow> bool \<Rightarrow> string \<Rightarrow> string \<Rightarrow> int \<Rightarrow> nat
   \<Rightarrow> nat \<times> database" where
  "logInteraction db q resp isTaught userAgent ipAddress responseTime now =
     (let lastID = Suc (logs_seq db);
          row = \<lparr>log_id = lastID, log_question = q, response = resp, is_taught = isTaught,
                 response_time_ms = responseTime, user_agent = userAgent,
                 ip_address = ipAddress, timestamp = now\<rparr>
      in (lastID, db\<lparr>logs := logs db @ [row], logs_seq := lastID\<rparr>))"

section \<open>\<open>upsertResponse\<close>\<close>

text \<open>
  \<open>INSERT INTO conversations (question, answer, normalized_question) VALUES (?, ?, ?)
  ON CONFLICT(normalized_question) DO UPDATE SET answer = excluded.answer,
  teach_count = teach_count + 1, updated_at = CURRENT_TIMESTAMP RETURNING *\<close>.

  SQLite runs a statement in two stages. When it compiles the statement it checks the
  column list of the \<open>INSERT\<close>: a column declared \<open>GENERATED ALWAYS\<close> cannot be
  written, and the statement is refused with the error \<open>cannot INSERT into generated
  column\<close> before any row is touched. Only a statement that compiles is executed.
  \<open>db.get\<close> passes the error to the callback, which rejects the promise.
\<close>

definition generated_columns :: "string list" where
  "generated_columns = [''normalized_question'']"

definition sql_prepare_insert :: "string list \<Rightarrow> sqlite_error + unit" where
  "sql_prepare_insert columns =
     (case find (\<lambda>c. c \<in> set generated_columns) columns of
        Some c \<Rightarrow> Inl (cannot_INSERT_into_generated_column c)
      | None \<Rightarrow> Inr ())"

text \<open>
  The execution stage of the statement. The new row gets the next rowid and the column
  defaults; the conflict target is the \<open>UNIQUE(normalized_question)\<close> constraint, which
  covers every row, active or not. On a conflict the existing row keeps its question and
  takes the new answer, one more \<open>teach_count\<close> and a new \<open>updated_at\<close> (the trigger
  \<open>update_conversations_timestamp\<close> writes the same time again). \<open>RETURNING *\<close>
  gives the row as written. The third value bound to the statement, the question as
  normalised by JavaScript, is meant for the generated column; SQLite computes that
  column from \<open>question\<close> and has no place to store a value for it.
\<close>

definition upsert_row :: "database \<Rightarrow> string \<Rightarrow> string \<Rightarrow> nat \<Rightarrow> conversation \<times> database" where
  "upsert_row db q a now =
     (let rowid = Suc (conversations_seq db);
          new = \<lparr>conv_id = rowid, question = q, answer = a, teach_count = 1,
                 is_active = True, created_at = now, updated_at = now\<rparr>;
          key = normalized_question new;
          excluded = (\<lambda>r. r\<lparr>answer := a, teach_count := teach_count r + 1, updated_at := now\<rparr>)
      in case find (\<lambda>r. normalized_question r = key) (conversations db) of
           None \<Rightarrow>
             (new, db\<lparr>conversations := conversations db @ [new], conversations_seq := rowid\<rparr>)
         | Some old \<Rightarrow>
             (excluded old,
              db\<lparr>conversations :=
                    map (\<lambda>r. if normalized_question r = key then excluded r else r)
                      (conversations db),
                  conversations_seq := rowid\<rparr>))"

definition upsert_columns :: "string list" where
  "upsert_columns = [''question'', ''answer'', ''normalized_question'']"

definition upsertResponse ::
  "database \<Rightarrow> string \<Rightarrow> string \<Rightarrow> nat \<Rightarrow> (sqlite_error + conversation) \<times> database" where
  "upsertResponse db q a now =
     (case sql_prepare_insert upsert_columns of
        Inl err \<Rightarrow> (Inl err, db)
      | Inr _ \<Rightarrow> (let (row, db') = upsert_row db q a now in (Inr row, db')))"

section \<open>The routes of \<open>routes/simsimi.js\<close>\<close>

datatype http_response =
    BadRequest string
  | TooManyRequests int
  | InternalServerError string
  | AskTaught string int int
  | AskNotTaught "string option" int
  | TeachCreated conversation int
  | StatsOk stats_row int
  | SearchOk "conversation list" int int bool

text \<open>Reading an array at an index: \<open>undefined\<close> outside the array.\<close>

definition js_index :: "'a list \<Rightarrow> int \<Rightarrow> 'a option" where
  "js_index xs i = (if 0 \<le> i \<and> i < int (length xs) then Some (xs ! nat i) else None)"

definition defaultResponses :: "string list" where
  "defaultResponses =
     [''I don't know how to respond to that yet. Can you teach me?'',
      ''Hmm, I'm not sure about that one. Want to teach me the answer?'',
      ''That's a new one for me! What should I say to that?'',
      ''I'm still learning! Could you teach me how to respond to that?'',
      ''I don't have an answer for that. Would you like to teach me?'']"

text \<open>
  \<open>GET /ask\<close>. \<open>responseTime\<close> is the difference of the two \<open>Date.now()\<close>
  readings, \<open>now\<close> the database clock and \<open>random\<close> the value of
  \<open>Math.random()\<close>.
\<close>

definition ask ::
  "database \<Rightarrow> string \<Rightarrow> string \<Rightarrow> string \<Rightarrow> int \<Rightarrow> nat \<Rightarrow> rat \<Rightarrow> http_response \<times> database" where
  "ask db q userAgent ip responseTime now random =
     (if q = [] \<or> trim q = [] then (BadRequest ''Question parameter (q) is required'', db)
      else
        let found = findResponse db q;
            (lastID, db') = logInteraction db q (map_option answer found) (found \<noteq> None)
                              userAgent ip responseTime now
        in case found of
             Some r \<Rightarrow> (AskTaught (answer r) (teach_count r) responseTime, db')
           | None \<Rightarrow>
               (AskNotTaught
                  (js_index defaultResponses \<lfloor>random * of_nat (length defaultResponses)\<rfloor>)
                  responseTime, db'))"

text \<open>\<open>POST /teach\<close>. \<open>!question\<close> holds of a string exactly when it is empty.\<close>

definition teach ::
  "database \<Rightarrow> string \<Rightarrow> string \<Rightarrow> string \<Rightarrow> string \<Rightarrow> int \<Rightarrow> nat \<Rightarrow> http_response \<times> database" where
  "teach db q a userAgent ip responseTime now =
     (if q = [] \<or> a = [] then (BadRequest ''Both question and answer are required'', db)
      else if length q > 500 \<or> length a > 1000 then
        (BadRequest ''Question or answer too long. Max 500 chars for question, 1000 for answer'',
         db)
      else
        case upsertResponse db q a now of
          (Inl err, db') \<Rightarrow> (InternalServerError ''Failed to save the response'', db')
        | (Inr result, db') \<Rightarrow>
            (let (lastID, db'') = logInteraction db' q (Some a) True userAgent ip responseTime now
             in (TeachCreated result responseTime, db'')))"

text \<open>\<open>GET /stats\<close>: \<open>Math.round(stats.avg_response_time || 0)\<close>.\<close>

definition stats :: "database \<Rightarrow> http_response" where
  "stats db =
     (let row = getStats db
      in StatsOk row (case avg_response_time row of None \<Rightarrow> 0 | Some v \<Rightarrow> \<lfloor>v + 1 / 2\<rfloor>))"

text \<open>
  \<open>GET /search\<close>. \<open>parseInt(...) || 10\<close>: a missing or unreadable number
  (\<^const>\<open>None\<close>) and the number 0 both give the default. The offset is the exact
  product, as JavaScript computes it for whole numbers up to \<open>2^53\<close>.
\<close>

definition or_default :: "int option \<Rightarrow> int \<Rightarrow> int" where
  "or_default parsed d = (case parsed of None \<Rightarrow> d | Some n \<Rightarrow> if n = 0 then d else n)"

definition search :: "database \<Rightarrow> string \<Rightarrow> int option \<Rightarrow> int option \<Rightarrow> http_response" where
  "search db searchTerm limitParam pageParam =
     (let limit = or_default limitParam 10;
          page = or_default pageParam 1;
          offset = (page - 1) * limit
      in if searchTerm = [] \<or> trim searchTerm = [] then
           BadRequest ''Search term (q) is required''
         else
           case searchResponses db searchTerm limit offset of
             Inl err \<Rightarrow> InternalServerError ''Failed to search responses''
           | Inr results \<Rightarrow> SearchOk results page limit (int (length results) = limit))"

section \<open>The rate limiter\<close>

text \<open>
  \<open>requestCounts\<close> is a \<open>Map\<close> from the client address to the array of the
  times (\<open>Date.now()\<close>, milliseconds) of its requests that were let through.
\<close>

type_synonym request_counts = "string \<rightharpoonup> int list"

definition RATE_LIMIT :: nat where
  "RATE_LIMIT = 100"

definition RATE_LIMIT_WINDOW :: int where
  "RATE_LIMIT_WINDOW = 60000"

text \<open>\<open>requestCounts.get(ip) || []\<close>: an array, even an empty one, is truthy.\<close>

definition get_or_empty :: "request_counts \<Rightarrow> string \<Rightarrow> int list" where
  "get_or_empty counts ip = (case counts ip of Some stamps \<Rightarrow> stamps | None \<Rightarrow> [])"

text \<open>
  The middleware answers 429 itself (\<^const>\<open>Some\<close> of \<open>retryAfter\<close>) or calls
  \<open>next()\<close> (\<^const>\<open>None\<close>). \<open>requests\<close> is the array held by the map, so the
  \<open>push\<close> is a write to the map.
\<close>

definition rateLimit :: "request_counts \<Rightarrow> string \<Rightarrow> int \<Rightarrow> int option \<times> request_counts" where
  "rateLimit requestCounts ip now =
     (let windowStart = now - RATE_LIMIT_WINDOW;
          cleaned = (case requestCounts ip of
                       Some stamps \<Rightarrow> requestCounts(ip \<mapsto> filter (\<lambda>time. time > windowStart) stamps)
                     | None \<Rightarrow> requestCounts);
          requests = get_or_empty cleaned ip
      in if length requests \<ge> RATE_LIMIT then
           (Some \<lceil>of_int (requests ! 0 + RATE_LIMIT_WINDOW - now) / (1000 :: rat)\<rceil>, cleaned)
         else (None, cleaned(ip \<mapsto> requests @ [now])))"

text \<open>
  A request as the router sees it, with the readings of the clocks and of
  \<open>Math.random()\<close> that its handling takes.
\<close>

datatype endpoint =
    Ask string
  | Teach string string
  | Stats
  | Search string "int option" "int option"

record request =
  req_ip :: string
  arrival :: int
  req_user_agent :: string
  req_endpoint :: endpoint
  elapsed :: int
  db_clock :: nat
  math_random :: rat

record server =
  requestCounts :: request_counts
  db :: database

definition route :: "database \<Rightarrow> request \<Rightarrow> http_response \<times> database" where
  "route d r =
     (case req_endpoint r of
        Ask q \<Rightarrow> ask d q (req_user_agent r) (req_ip r) (elapsed r) (db_clock r) (math_random r)
      | Teach q a \<Rightarrow> teach d q a (req_user_agent r) (req_ip r) (elapsed r) (db_clock r)
      | Stats \<Rightarrow> (stats d, d)
      | Search q l p \<Rightarrow> (search d q l p, d))"

text \<open>\<open>router.use(rateLimit)\<close>: every route runs behind the rate limiter.\<close>

definition serve :: "server \<Rightarrow> request \<Rightarrow> http_response \<times> server" where
  "serve s r =
     (case rateLimit (requestCounts s) (req_ip r) (arrival r) of
        (Some retryAfter, counts) \<Rightarrow> (TooManyRequests retryAfter, s\<lparr>requestCounts := counts\<rparr>)
      | (None, counts) \<Rightarrow>
          (let (resp, d) = route (db s) r in (resp, \<lparr>requestCounts = counts, db = d\<rparr>)))"

text \<open>Serving requests one after the other, keeping each request with its response.\<close>

definition serve_step ::
  "server \<times> (request \<times> http_response) list \<Rightarrow> request
   \<Rightarrow> server \<times> (request \<times> http_response) list" where
  "serve_step acc r = (let (resp, s') = serve (fst acc) r in (s', snd acc @ [(r, resp)]))"

definition serve_all :: "server \<Rightarrow> request list \<Rightarrow> server \<times> (request \<times> http_response) list" where
  "serve_all s rs = foldl serve_step (s, []) rs"

definition rejected :: "http_response \<Rightarrow> bool" where
  "rejected resp = (case resp of TooManyRequests n \<Rightarrow> True | _ \<Rightarrow> False)"

text \<open>The server when the module is loaded: an empty \<open>Map\<close>.\<close>

definition start :: "database \<Rightarrow> server" where
  "start d = \<lparr>requestCounts = Map.empty, db = d\<rparr>"

text \<open>The arrival times of the requests of one address that got past the rate limiter.\<close>

definition accepted_times :: "string \<Rightarrow> (request \<times> http_response) list \<Rightarrow> int list" where
  "accepted_times ip out =
     map (\<lambda>p. arrival (fst p)) (filter (\<lambda>p. req_ip (fst p) = ip \<and> \<not> rejected (snd p)) out)"

text \<open>How many of them lie in the window of one minute after \<open>w\<close>, open at its
  start and closed at its end.\<close>

definition accepted_within :: "string \<Rightarrow> int \<Rightarrow> (request \<times> http_response) list \<Rightarrow> nat" where
  "accepted_within ip w out =
     length (filter (\<lambda>x. w < x \<and> x \<le> w + RATE_LIMIT_WINDOW) (accepted_times ip out))"

text \<open>How many requests of an address, let through or not, arrived within the minute
  before \<open>now\<close>.\<close>

definition requests_within :: "string \<Rightarrow> int \<Rightarrow> request list \<Rightarrow> nat" where
  "requests_within ip now rs =
     length (filter (\<lambda>r. req_ip r = ip \<and> now - RATE_LIMIT_WINDOW < arrival r \<and> arrival r \<le> now)
               rs)"

text \<open>A request for the statistics, for runs of requests from one address.\<close>

definition stats_request :: "int \<Rightarrow> request" where
  "stats_request t =
     \<lparr>req_ip = ''10.0.0.1'', arrival = t, req_user_agent = ''curl'', req_endpoint = Stats,
      elapsed = 0, db_clock = 0, math_random = 0\<rparr>"

section \<open>Sequences of store operations\<close>

text \<open>
  The operations on the store, each with the reading of the database clock it runs at.
  The three queries are \<open>SELECT\<close> statements and leave the database as it is.
\<close>

datatype store_op =
    Find string
  | Upsert string string
  | SearchFor string int int
  | GetStats
  | LogRecord string "string option" bool string string int

fun apply_op :: "database \<Rightarrow> store_op \<times> nat \<Rightarrow> database" where
  "apply_op d (Find q, now) = d"
| "apply_op d (Upsert q a, now) = snd (upsertResponse d q a now)"
| "apply_op d (SearchFor q limit offset, now) = d"
| "apply_op d (GetStats, now) = d"
| "apply_op d (LogRecord q resp isTaught userAgent ipAddress responseTime, now) =
     snd (logInteraction d q resp isTaught userAgent ipAddress responseTime now)"

definition run_ops :: "database \<Rightarrow> (store_op \<times> nat) list \<Rightarrow> database" where
  "run_ops d ops = foldl apply_op d ops"

text \<open>
  Calls of \<open>upsertResponse\<close> that are in flight together. Each call hands one SQL
  statement to the one connection, and SQLite runs the statements of a connection one
  after the other; the list gives the calls (question, answer, clock) in the order in
  which their statements run.
\<close>

definition upsert_calls :: "(string \<times> string \<times> nat) list \<Rightarrow> (store_op \<times> nat) list" where
  "upsert_calls calls = map (\<lambda>(q, a, now). (Upsert q a, now)) calls"

text \<open>At most one active row for each value of \<open>normalized_question\<close>.\<close>

definition one_active_per_question :: "database \<Rightarrow> bool" where
  "one_active_per_question d =
     distinct (map normalized_question (filter is_active (conversations d)))"

section \<open>A store with three rows\<close>

text \<open>
  A database file as a later run of the program can find it: three taught questions,
  the second one switched off through the \<open>is_active\<close> column, and three logged
  interactions.
\<close>

definition row_hello :: conversation where
  "row_hello = \<lparr>conv_id = 1, question = ''Hello'', answer = ''Hi there!'', teach_count = 2,
                is_active = True, created_at = 10, updated_at = 30\<rparr>"

definition row_bye :: conversation where
  "row_bye = \<lparr>conv_id = 2, question = ''bye'', answer = ''See you again soon!'',
              teach_count = 5, is_active = False, created_at = 20, updated_at = 20\<rparr>"

definition row_night :: conversation where
  "row_night = \<lparr>conv_id = 3, question = ''good night'', answer = ''Sweet dreams!'',
                teach_count = 1, is_active = True, created_at = 25, updated_at = 25\<rparr>"

definition example_logs :: "log_entry list" where
  "example_logs =
     [\<lparr>log_id = 1, log_question = ''Hello'', response = Some ''Hi there!'', is_taught = True,
       response_time_ms = 4, user_agent = ''curl'', ip_address = ''10.0.0.1'', timestamp = 31\<rparr>,
      \<lparr>log_id = 2, log_question = ''what?'', response = None, is_taught = False,
       response_time_ms = 0, user_agent = ''curl'', ip_address = ''10.0.0.1'', timestamp = 32\<rparr>,
      \<lparr>log_id = 3, log_question = ''good night'', response = Some ''Sweet dreams!'',
       is_taught = True, response_time_ms = 6, user_agent = ''curl'',
       ip_address = ''10.0.0.2'', timestamp = 33\<rparr>]"

definition example_store :: database where
  "example_store =
     \<lparr>conversations = [row_hello, row_bye, row_night], logs = example_logs,
      conversations_seq = 3, logs_seq = 3\<rparr>"

section \<open>Normalisation\<close>

lemma js_lower_char_whitespace: "js_is_whitespace (js_lower_char c) = js_is_whitespace c"
proof (cases "js_is_upper c")
  case False
  then show ?thesis by (simp add: js_lower_char_def)
next
  case True
  then have "of_char (js_lower_char c) = (of_char c + 32 :: nat)"
    by (auto simp: js_lower_char_def js_is_upper_def Let_def)
  with True show ?thesis
    by (auto simp: js_is_whitespace_def js_is_upper_def Let_def)
qed

lemma dropWhile_all: "\<forall>c\<in>set pre. P c \<Longrightarrow> dropWhile P (pre @ s) = dropWhile P s"
  by (induction pre) auto

text \<open>White space around a string does not survive \<open>trim\<close>.\<close>

lemma trim_pad:
  assumes pre: "\<forall>c\<in>set pre. js_is_whitespace c"
    and post: "\<forall>c\<in>set post. js_is_whitespace c"
  shows "trim (pre @ s @ post) = trim s"
proof (cases "\<forall>c\<in>set s. js_is_whitespace c")
  case True
  with pre post have "\<forall>c\<in>set (pre @ s @ post). js_is_whitespace c" by auto
  then have a: "dropWhile js_is_whitespace (pre @ s @ post) = []"
    by (simp only: dropWhile_eq_Nil_conv)
  from True have b: "dropWhile js_is_whitespace s = []" by simp
  show ?thesis by (simp only: trim_def a b)
next
  case False
  then obtain x where "x \<in> set s" "\<not> js_is_whitespace x" by blast
  then have "dropWhile js_is_whitespace (s @ post) = dropWhile js_is_whitespace s @ post"
    by (rule dropWhile_append1)
  moreover from post have "\<forall>c\<in>set (rev post). js_is_whitespace c" by simp
  ultimately show ?thesis
    by (simp add: trim_def dropWhile_all [OF pre] dropWhile_all)
qed

lemma normalize_pad:
  assumes "\<forall>c\<in>set pre. js_is_whitespace c" and "\<forall>c\<in>set post. js_is_whitespace c"
  shows "normalize (pre @ s @ post) = normalize s"
  using assms by (simp add: normalize_def toLowerCase_def trim_pad js_lower_char_whitespace)

lemma normalize_case: "toLowerCase s = toLowerCase t \<Longrightarrow> normalize s = normalize t"
  by (simp add: normalize_def)

text \<open>Two strings that differ by case and by white space at the ends have one key.\<close>

lemma normalize_variants:
  assumes "\<forall>c\<in>set pre1. js_is_whitespace c" and "\<forall>c\<in>set post1. js_is_whitespace c"
    and "\<forall>c\<in>set pre2. js_is_whitespace c" and "\<forall>c\<in>set post2. js_is_whitespace c"
    and "toLowerCase q1 = toLowerCase q2"
  shows "normalize (pre1 @ q1 @ post1) = normalize (pre2 @ q2 @ post2)"
  using assms by (simp add: normalize_pad normalize_case [of q1 q2])

lemma dropWhile_map_lower:
  "dropWhile js_is_whitespace (map js_lower_char s)
   = map js_lower_char (dropWhile js_is_whitespace s)"
  by (induction s) (auto simp: js_lower_char_whitespace)

text \<open>Lower-casing and trimming commute: the key is also the lower case of the trimmed
  question.\<close>

lemma normalize_trim_first: "normalize q = toLowerCase (trim q)"
  by (simp add: normalize_def trim_def toLowerCase_def dropWhile_map_lower rev_map)

section \<open>Lookup\<close>

text \<open>
  C4. Two questions that differ only by the case of their letters and by white space at
  their ends get the same answer from \<open>findResponse\<close>: the same row, or no row for
  both. Each question is written as white space, a core, white space; the two cores
  are equal up to case.
\<close>

theorem findResponse_case_whitespace:
  assumes "\<forall>c\<in>set pre1. js_is_whitespace c" and "\<forall>c\<in>set post1. js_is_whitespace c"
    and "\<forall>c\<in>set pre2. js_is_whitespace c" and "\<forall>c\<in>set post2. js_is_whitespace c"
    and "toLowerCase q1 = toLowerCase q2"
  shows "findResponse d (pre1 @ q1 @ post1) = findResponse d (pre2 @ q2 @ post2)"
  using normalize_variants [OF assms] by (simp add: findResponse_def)

theorem findResponse_case_whitespace_witness:
  "findResponse example_store ''  HELLO  '' = findResponse example_store ''hello''
   \<and> findResponse example_store ''hello'' = Some row_hello"
proof -
  have ws: "\<forall>c\<in>set ''  ''. js_is_whitespace c" by code_simp
  have none: "\<forall>c\<in>set []. js_is_whitespace c" by simp
  have low: "toLowerCase ''HELLO'' = toLowerCase ''hello''" by code_simp
  have "findResponse example_store (''  '' @ ''HELLO'' @ ''  '')
        = findResponse example_store ([] @ ''hello'' @ [])"
    by (rule findResponse_case_whitespace [OF ws ws none none low])
  moreover have "findResponse example_store ''hello'' = Some row_hello" by code_simp
  ultimately show ?thesis by simp
qed

section \<open>Search\<close>

text \<open>
  C10. \<open>searchResponses\<close> lower-cases and trims its search term before it builds
  the pattern, so two terms that differ only by the case of their letters and by white
  space at their ends give the same rows in the same order, for every store, limit and
  offset.
\<close>

theorem searchResponses_case_whitespace:
  assumes "\<forall>c\<in>set pre1. js_is_whitespace c" and "\<forall>c\<in>set post1. js_is_whitespace c"
    and "\<forall>c\<in>set pre2. js_is_whitespace c" and "\<forall>c\<in>set post2. js_is_whitespace c"
    and "toLowerCase t1 = toLowerCase t2"
  shows "searchResponses d (pre1 @ t1 @ post1) limit offset
         = searchResponses d (pre2 @ t2 @ post2) limit offset"
  using normalize_variants [OF assms] by (simp add: searchResponses_def)

theorem searchResponses_case_whitespace_witness:
  "searchResponses example_store '' NIGHT '' 10 0 = searchResponses example_store ''night'' 10 0
   \<and> searchResponses example_store ''night'' 10 0 = Inr [row_night]"
proof -
  have ws: "\<forall>c\<in>set '' ''. js_is_whitespace c" by code_simp
  have none: "\<forall>c\<in>set []. js_is_whitespace c" by simp
  have low: "toLowerCase ''NIGHT'' = toLowerCase ''night''" by code_simp
  have "searchResponses example_store ('' '' @ ''NIGHT'' @ '' '') 10 0
        = searchResponses example_store ([] @ ''night'' @ []) 10 0"
    by (rule searchResponses_case_whitespace [OF ws ws none none low])
  moreover have "searchResponses example_store ''night'' 10 0 = Inr [row_night]" by code_simp
  ultimately show ?thesis by simp
qed

text \<open>
  What \<open>searchResponses\<close> does keep. It fails only on a limit or an offset that is
  no 64-bit integer and on a pattern that is too long. When it returns rows, they come
  from the table and satisfy the \<open>WHERE\<close> clause, they are in descending order of
  \<open>teach_count\<close>, a page is the slice of the unpaged result, and no match gives the
  empty list.
\<close>

lemma searchResponses_errors:
  assumes "searchResponses d t limit offset = Inl err"
  shows "\<not> sql_must_be_int limit \<or> \<not> sql_must_be_int offset
         \<or> SQLITE_MAX_LIKE_PATTERN_LENGTH < utf8_length (''%'' @ normalize t @ ''%'')"
  using assms by (auto simp: searchResponses_def Let_def split: if_splits)

lemma searchResponses_rows:
  assumes "searchResponses d t limit offset = Inr rows"
  shows "rows = (if limit = 0 then []
                 else sql_limit_offset limit offset
                        (sort_key (\<lambda>r. - teach_count r)
                           (filter (search_where (''%'' @ normalize t @ ''%'')) (conversations d))))"
  using assms by (auto simp: searchResponses_def Let_def split: if_splits)

lemma sorted_sql_limit_offset:
  "sorted (map f xs) \<Longrightarrow> sorted (map f (sql_limit_offset limit offset xs))"
proof -
  assume "sorted (map f xs)"
  then have a: "sorted (drop (nat offset) (map f xs))" by (rule sorted_wrt_drop)
  then have "sorted (take (nat limit) (drop (nat offset) (map f xs)))" by (rule sorted_wrt_take)
  with a show ?thesis by (simp add: sql_limit_offset_def Let_def take_map drop_map)
qed

lemma searchResponses_ordered:
  assumes "searchResponses d t limit offset = Inr rows"
  shows "sorted_wrt (\<lambda>r s. teach_count s \<le> teach_count r) rows"
proof -
  have "sorted (map (\<lambda>r. - teach_count r) rows)"
    unfolding searchResponses_rows [OF assms] by (simp add: sorted_sql_limit_offset)
  then show ?thesis by (simp add: sorted_map)
qed

lemma searchResponses_page:
  assumes "searchResponses d t limit offset = Inr rows"
    and "searchResponses d t (- 1) 0 = Inr unpaged"
  shows "rows = sql_limit_offset limit offset unpaged"
  unfolding searchResponses_rows [OF assms(1)] searchResponses_rows [OF assms(2)]
  by (simp add: sql_limit_offset_def Let_def)

lemma set_sql_limit_offset: "set (sql_limit_offset limit offset xs) \<subseteq> set xs"
  by (auto simp: sql_limit_offset_def Let_def dest: in_set_takeD in_set_dropD)

lemma searchResponses_where:
  assumes "searchResponses d t limit offset = Inr rows" and "r \<in> set rows"
  shows "r \<in> set (conversations d) \<and> search_where (''%'' @ normalize t @ ''%'') r"
proof -
  from assms(2) have "r \<in> set (sort_key (\<lambda>r. - teach_count r)
      (filter (search_where (''%'' @ normalize t @ ''%'')) (conversations d)))"
    unfolding searchResponses_rows [OF assms(1)]
    using set_sql_limit_offset by (fastforce split: if_splits)
  then show ?thesis by simp
qed

lemma searchResponses_no_match:
  assumes "\<forall>r\<in>set (conversations d). \<not> search_where (''%'' @ normalize t @ ''%'') r"
    and "searchResponses d t limit offset = Inr rows"
  shows "rows = []"
proof -
  from assms(1)
  have "filter (search_where (''%'' @ normalize t @ ''%'')) (conversations d) = []"
    by (simp add: filter_empty_conv)
  then show ?thesis
    unfolding searchResponses_rows [OF assms(2)] by (simp add: sql_limit_offset_def Let_def)
qed

text \<open>
  C3. The claim is that every row \<open>searchResponses\<close> returns is active. The
  \<open>WHERE\<close> clause has no parentheses around its \<open>OR\<close>, so \<open>is_active = 1\<close>
  guards the match on the answer only: a row that is switched off is returned when the
  term matches its question. Here the term \<open>BYE\<close> returns the inactive row.
\<close>

theorem searchResponses_returns_inactive:
  "searchResponses example_store ''BYE'' 10 0 = Inr [row_bye] \<and> \<not> is_active row_bye"
  by code_simp

section \<open>Statistics\<close>

lemma sql_MAX_Max: "sql_MAX xs = (if xs = [] then None else Some (Max (set xs)))"
proof (cases xs)
  case Nil
  then show ?thesis by (simp add: sql_MAX_def)
next
  case (Cons x ys)
  have "fold max ys x = Max (set (x # ys))" by (rule Max.set_eq_fold [symmetric])
  with Cons show ?thesis by (simp add: sql_MAX_def)
qed

text \<open>
  C7. \<open>getStats\<close> reports as \<open>last_taught\<close> the largest \<open>created_at\<close> of all
  conversation rows (NULL when there is none), whatever their \<open>updated_at\<close>, and as
  \<open>avg_response_time\<close> the mean of the strictly positive response times of the log
  (NULL when there is none): zero and negative times count neither in the sum nor in
  the number of rows.
\<close>

theorem getStats_last_taught_and_average:
  "last_taught (getStats d)
     = (if conversations d = [] then None
        else Some (Max (created_at ` set (conversations d))))
   \<and> last_taught (getStats (d\<lparr>conversations := map (updated_at_update f) (conversations d)\<rparr>))
     = last_taught (getStats d)
   \<and> avg_response_time (getStats d)
     = (let positive = filter (\<lambda>t. 0 < t) (map response_time_ms (logs d))
        in if positive = [] then None
           else Some (of_int (sum_list positive) / of_nat (length positive)))"
proof (intro conjI)
  show "last_taught (getStats d)
     = (if conversations d = [] then None
        else Some (Max (created_at ` set (conversations d))))"
    by (simp add: getStats_def sql_MAX_Max)
  show "last_taught (getStats (d\<lparr>conversations := map (updated_at_update f) (conversations d)\<rparr>))
     = last_taught (getStats d)"
    by (simp add: getStats_def comp_def)
  show "avg_response_time (getStats d)
     = (let positive = filter (\<lambda>t. 0 < t) (map response_time_ms (logs d))
        in if positive = [] then None
           else Some (of_int (sum_list positive) / of_nat (length positive)))"
    by (simp add: getStats_def sql_AVG_def Let_def filter_map comp_def)
qed

text \<open>In the example store the newest creation is at 25 and the newest update at 30;
  the response times are 4, 0 and 6.\<close>

lemma getStats_example:
  "last_taught (getStats example_store) = Some 25
   \<and> Max (updated_at ` set (conversations example_store)) = 30
   \<and> avg_response_time (getStats example_store) = Some 5"
  by code_simp

section \<open>Teaching\<close>

text \<open>
  The column list of the \<open>INSERT\<close> in \<open>upsertResponse\<close> names the generated column
  \<open>normalized_question\<close>, so SQLite refuses the statement each time, whatever the
  question, the answer and the rows in the table.
\<close>

lemma upsertResponse_refused:
  "upsertResponse d q a now
   = (Inl (cannot_INSERT_into_generated_column ''normalized_question''), d)"
  by (simp add: upsertResponse_def sql_prepare_insert_def upsert_columns_def
      generated_columns_def)

text \<open>
  C1. The claim is that \<open>upsert(q, a1)\<close> followed by \<open>upsert(q, a2)\<close> leaves one
  entry with the second answer and \<open>teachCount = 2\<close>. On the freshly created
  database both calls of \<open>upsertResponse\<close> are rejected with the SQLite error, the
  table stays empty and the question is not found afterwards.
\<close>

theorem upsertResponse_twice_rejected:
  "upsertResponse fresh_database ''hello'' ''Hi there!'' 1
     = (Inl (cannot_INSERT_into_generated_column ''normalized_question''), fresh_database)
   \<and> upsertResponse fresh_database ''hello'' ''Hey!'' 2
     = (Inl (cannot_INSERT_into_generated_column ''normalized_question''), fresh_database)
   \<and> conversations fresh_database = []
   \<and> findResponse fresh_database ''hello'' = None"
  by (simp add: upsertResponse_def sql_prepare_insert_def upsert_columns_def
      generated_columns_def fresh_database_def findResponse_def)

text \<open>
  The execution stage on its own does what the statement is written for: on a table
  with no row for the key, two runs with the same question leave one new row, with the
  second answer, \<open>teach_count = 2\<close>, the creation time of the first run and the update
  time of the second.
\<close>

lemma find_append_last:
  "\<forall>r\<in>set xs. \<not> P r \<Longrightarrow> P x \<Longrightarrow> find P (xs @ [x]) = Some x"
  by (induction xs) auto

lemma upsert_row_twice:
  assumes "\<forall>r\<in>set (conversations d). normalized_question r \<noteq> sql_LOWER (sql_TRIM q)"
  shows "conversations (snd (upsert_row (snd (upsert_row d q a1 t1)) q a2 t2))
         = conversations d
           @ [\<lparr>conv_id = Suc (conversations_seq d), question = q, answer = a2,
               teach_count = 2, is_active = True, created_at = t1, updated_at = t2\<rparr>]"
proof -
  let ?new = "\<lparr>conv_id = Suc (conversations_seq d), question = q, answer = a1,
               teach_count = 1, is_active = True, created_at = t1, updated_at = t1\<rparr>"
  let ?P = "\<lambda>r. sql_LOWER (sql_TRIM (question r)) = sql_LOWER (sql_TRIM q)"
  from assms have none: "find ?P (conversations d) = None"
    by (simp add: find_None_iff normalized_question_def)
  then have first: "snd (upsert_row d q a1 t1)
      = d\<lparr>conversations := conversations d @ [?new],
           conversations_seq := Suc (conversations_seq d)\<rparr>"
    by (simp add: upsert_row_def normalized_question_def Let_def)
  have hit: "find ?P (conversations d @ [?new]) = Some ?new"
    using assms by (intro find_append_last) (simp_all add: normalized_question_def)
  have same: "map (\<lambda>r. if ?P r then f r else r) (conversations d) = conversations d" for f
    using assms by (simp add: map_idI normalized_question_def)
  show ?thesis
    unfolding first
    by (simp add: upsert_row_def Let_def hit same normalized_question_def)
qed

section \<open>The teach route\<close>

text \<open>What the validation of \<open>POST /teach\<close> does reject, with the store untouched:
  an empty question or answer, a question of more than 500 characters, an answer of
  more than 1000.\<close>

lemma teach_validation:
  assumes "q = [] \<or> a = [] \<or> 500 < length q \<or> 1000 < length a"
  shows "\<exists>message. teach d q a userAgent ip responseTime now = (BadRequest message, d)"
  using assms by (auto simp: teach_def)

text \<open>
  C5. The claim is that \<open>teach\<close> rejects a blank question with a validation error.
  The route tests \<open>!question\<close>, which a string of three spaces passes (the ask and
  search routes test \<open>trim() === ''\<close> as well). The request goes on to
  \<open>upsertResponse\<close> and comes back as the storage failure of every teach, status 500,
  not as the validation error, status 400.
\<close>

theorem teach_blank_question_not_validated:
  "trim ''   '' = []
   \<and> teach fresh_database ''   '' ''hi'' ''curl'' ''10.0.0.1'' 3 7
     = (InternalServerError ''Failed to save the response'', fresh_database)"
proof
  show "trim ''   '' = []" by code_simp
  show "teach fresh_database ''   '' ''hi'' ''curl'' ''10.0.0.1'' 3 7
     = (InternalServerError ''Failed to save the response'', fresh_database)"
    by (simp add: teach_def upsertResponse_refused)
qed

section \<open>The ask route\<close>

lemma js_index_in_range:
  assumes "0 \<le> random" and "random < 1" and "xs \<noteq> []"
  shows "\<exists>m\<in>set xs. js_index xs \<lfloor>random * of_nat (length xs)\<rfloor> = Some m"
proof -
  let ?n = "length xs"
  let ?i = "\<lfloor>random * of_nat ?n\<rfloor>"
  from assms have pos: "0 < (of_nat ?n :: rat)" by simp
  from assms(1) have "0 \<le> random * of_nat ?n" by simp
  then have lo: "0 \<le> ?i" by simp
  from assms(2) pos have "random * of_nat ?n < of_nat ?n"
    by (simp add: mult_less_cancel_right2)
  then have "random * of_nat ?n < of_int (int ?n)" by simp
  then have hi: "?i < int ?n" by (simp only: floor_less_iff)
  from lo hi have "nat ?i < ?n" by linarith
  then have "xs ! nat ?i \<in> set xs" by simp
  with lo hi show ?thesis by (auto simp: js_index_def)
qed

text \<open>
  C6. A question that reaches the lookup (the route turns an empty or blank \<open>q\<close> away
  before it) and has no matching active row gets one of the five fallback messages; the
  route appends exactly one row to the log, with \<open>response\<close> NULL and \<open>is_taught\<close>
  false, and leaves the conversations as they are. \<open>Math.random()\<close> is a number from
  0 (included) to 1 (excluded).
\<close>

theorem ask_not_found:
  assumes "trim q \<noteq> []" and "findResponse d q = None"
    and "0 \<le> random" and "random < 1"
  shows "\<exists>m\<in>set defaultResponses. \<exists>e.
           fst (ask d q userAgent ip responseTime now random) = AskNotTaught (Some m) responseTime
         \<and> logs (snd (ask d q userAgent ip responseTime now random)) = logs d @ [e]
         \<and> response e = None \<and> \<not> is_taught e \<and> log_question e = q
         \<and> conversations (snd (ask d q userAgent ip responseTime now random)) = conversations d"
proof -
  have "defaultResponses \<noteq> []" by (simp add: defaultResponses_def)
  with assms(3,4) obtain m where m: "m \<in> set defaultResponses"
    and idx: "js_index defaultResponses \<lfloor>random * of_nat (length defaultResponses)\<rfloor> = Some m"
    using js_index_in_range by blast
  from assms(1) have "q \<noteq> []" by (auto simp: trim_def)
  with assms(1,2) idx
  have "ask d q userAgent ip responseTime now random
        = (AskNotTaught (Some m) responseTime,
           snd (logInteraction d q None False userAgent ip responseTime now))"
    by (simp add: ask_def Let_def split: prod.splits)
  with m show ?thesis by (auto simp: logInteraction_def Let_def)
qed

theorem ask_not_found_witness:
  "trim ''unknown-xyz'' \<noteq> [] \<and> findResponse fresh_database ''unknown-xyz'' = None
   \<and> (\<exists>m\<in>set defaultResponses. \<exists>e.
         fst (ask fresh_database ''unknown-xyz'' ''curl'' ''10.0.0.1'' 3 7 (2 / 5))
           = AskNotTaught (Some m) 3
       \<and> logs (snd (ask fresh_database ''unknown-xyz'' ''curl'' ''10.0.0.1'' 3 7 (2 / 5)))
           = logs fresh_database @ [e]
       \<and> response e = None \<and> \<not> is_taught e \<and> log_question e = ''unknown-xyz''
       \<and> conversations (snd (ask fresh_database ''unknown-xyz'' ''curl'' ''10.0.0.1'' 3 7 (2 / 5)))
           = conversations fresh_database)"
proof -
  have h1: "trim ''unknown-xyz'' \<noteq> []" by code_simp
  have h2: "findResponse fresh_database ''unknown-xyz'' = None"
    by (simp add: findResponse_def fresh_database_def)
  have h3: "(0 :: rat) \<le> 2 / 5" and h4: "(2 / 5 :: rat) < 1" by simp_all
  from ask_not_found [OF h1 h2 h3 h4] h1 h2 show ?thesis by blast
qed

section \<open>The uniqueness invariant\<close>

text \<open>The execution stage of the upsert keeps the invariant: on a conflict it rewrites
  neither the question nor \<open>is_active\<close> of any row, and it inserts only when no row,
  active or not, has the key.\<close>

lemma upsert_row_one_active:
  assumes "one_active_per_question d"
  shows "one_active_per_question (snd (upsert_row d q a now))"
proof -
  let ?key = "sql_LOWER (sql_TRIM q)"
  let ?ex = "\<lambda>r. r\<lparr>answer := a, teach_count := teach_count r + 1, updated_at := now\<rparr>"
  let ?g = "\<lambda>r. if normalized_question r = ?key then ?ex r else r"
  have k: "normalized_question
      \<lparr>conv_id = i, question = q, answer = a, teach_count = 1, is_active = True,
       created_at = now, updated_at = now\<rparr> = ?key" for i
    by (simp add: normalized_question_def)
  show ?thesis
  proof (cases "find (\<lambda>r. normalized_question r = ?key) (conversations d)")
    case None
    then have "?key \<notin> normalized_question ` set (conversations d)"
      by (auto simp: find_None_iff)
    with assms None show ?thesis
      by (auto simp: upsert_row_def one_active_per_question_def Let_def k)
  next
    case (Some old)
    have act: "filter is_active (map ?g xs) = map ?g (filter is_active xs)" for xs
      by (induction xs) auto
    have key: "map normalized_question (map ?g xs) = map normalized_question xs" for xs
      by (induction xs) (auto simp: normalized_question_def)
    from assms Some show ?thesis
      by (simp add: upsert_row_def one_active_per_question_def Let_def k act key
          del: map_map)
  qed
qed

lemma logInteraction_conversations:
  "conversations (snd (logInteraction d q resp isTaught userAgent ip responseTime now))
   = conversations d"
  by (simp add: logInteraction_def Let_def)

text \<open>Whichever way the compile stage goes, \<open>upsertResponse\<close> keeps the
  invariant.\<close>

lemma upsertResponse_one_active:
  assumes "one_active_per_question d"
  shows "one_active_per_question (snd (upsertResponse d q a now))"
proof (cases "sql_prepare_insert upsert_columns")
  case (Inl err)
  with assms show ?thesis by (simp add: upsertResponse_def)
next
  case (Inr u)
  with upsert_row_one_active [OF assms, of q a now] show ?thesis
    by (auto simp: upsertResponse_def split: prod.splits)
qed

lemma apply_op_one_active:
  "one_active_per_question d \<Longrightarrow> one_active_per_question (apply_op d op)"
proof (cases op)
  case (Pair o' now)
  assume inv: "one_active_per_question d"
  show ?thesis
  proof (cases o')
    case (Upsert q a)
    with Pair inv show ?thesis by (simp add: upsertResponse_one_active)
  next
    case (LogRecord q resp isTaught userAgent ip responseTime)
    with Pair inv show ?thesis
      by (simp add: one_active_per_question_def logInteraction_conversations)
  qed (use Pair inv in simp_all)
qed

lemma fresh_database_one_active: "one_active_per_question fresh_database"
  by (simp add: one_active_per_question_def fresh_database_def)

text \<open>
  C2. A store with at most one active row for each \<open>normalized_question\<close> (the
  freshly created one, or any table that obeys its \<open>UNIQUE\<close> constraint) is still
  so after any sequence of find, upsert, search, stats and log-record operations; an
  upsert in particular adds no second active row for a key.
\<close>

theorem store_keeps_one_active_per_question:
  "one_active_per_question d \<Longrightarrow> one_active_per_question (run_ops d ops)"
  unfolding run_ops_def
  by (induction ops arbitrary: d) (simp_all add: apply_op_one_active)

theorem store_keeps_one_active_per_question_witness:
  "one_active_per_question example_store
   \<and> one_active_per_question
       (run_ops example_store
          [(Upsert ''hello'' ''Hey!'', 40), (Find ''hello'', 41), (SearchFor ''e'' 10 0, 42),
           (GetStats, 43),
           (LogRecord ''hello'' (Some ''Hi there!'') True ''curl'' ''10.0.0.1'' 2, 44)])"
proof -
  have h: "one_active_per_question example_store" by code_simp
  from store_keeps_one_active_per_question [OF h] h show ?thesis by blast
qed

section \<open>Teaching from several callers at once\<close>

lemma apply_op_conversations: "conversations (apply_op d op) = conversations d"
proof (cases op)
  case (Pair o' now)
  then show ?thesis
    by (cases o') (simp_all add: upsertResponse_refused logInteraction_conversations)
qed

lemma run_ops_conversations: "conversations (run_ops d ops) = conversations d"
  unfolding run_ops_def
  by (induction ops arbitrary: d) (simp_all add: apply_op_conversations)

text \<open>
  C8. The claim is that N calls of upsert in flight at once, for questions with one
  normalised form, leave exactly one entry with \<open>teachCount = N\<close>. Each call is one
  SQL statement, so the calls take effect in some order. In whatever order the
  statements of the calls run on the freshly created database, and however many there
  are, SQLite refuses each of them: the table has no row afterwards and no question is
  found.
\<close>

theorem upsert_calls_leave_no_entry:
  "conversations (run_ops fresh_database (upsert_calls calls)) = []
   \<and> findResponse (run_ops fresh_database (upsert_calls calls)) q = None"
proof -
  have "conversations (run_ops fresh_database (upsert_calls calls)) = []"
    by (simp add: run_ops_conversations fresh_database_def)
  then show ?thesis by (simp add: findResponse_def)
qed

section \<open>The rate limiter\<close>

text \<open>What one call of \<open>rateLimit\<close> decides and what it leaves in the map: the
  times of the address that are younger than the window, and the new time after them
  when the request is let through.\<close>

lemma rateLimit_decision:
  "(fst (rateLimit counts ip now) \<noteq> None)
   = (RATE_LIMIT \<le> length (filter (\<lambda>x. now - RATE_LIMIT_WINDOW < x) (get_or_empty counts ip)))"
  by (simp add: rateLimit_def get_or_empty_def Let_def split: option.splits)

lemma rateLimit_stored:
  "get_or_empty (snd (rateLimit counts ip now)) ip'
   = (if ip' = ip then
        (let young = filter (\<lambda>x. now - RATE_LIMIT_WINDOW < x) (get_or_empty counts ip)
         in if RATE_LIMIT \<le> length young then young else young @ [now])
      else get_or_empty counts ip')"
  by (simp add: rateLimit_def get_or_empty_def Let_def split: option.splits)

lemma route_not_rejected: "\<not> rejected (fst (route d r))"
  by (auto simp: route_def rejected_def ask_def teach_def stats_def search_def Let_def
      split: endpoint.splits prod.splits option.splits sum.splits)

lemma serve_rejected:
  "rejected (fst (serve s r))
   = (RATE_LIMIT \<le> length (filter (\<lambda>x. arrival r - RATE_LIMIT_WINDOW < x)
                             (get_or_empty (requestCounts s) (req_ip r))))"
proof (cases "rateLimit (requestCounts s) (req_ip r) (arrival r)")
  case (Pair decision counts)
  show ?thesis
  proof (cases decision)
    case None
    with Pair rateLimit_decision [of "requestCounts s" "req_ip r" "arrival r"]
      route_not_rejected [of "db s" r]
    show ?thesis by (auto simp: serve_def split: prod.splits)
  next
    case (Some retryAfter)
    with Pair rateLimit_decision [of "requestCounts s" "req_ip r" "arrival r"]
    show ?thesis by (simp add: serve_def rejected_def)
  qed
qed

lemma serve_counts:
  "requestCounts (snd (serve s r)) = snd (rateLimit (requestCounts s) (req_ip r) (arrival r))"
  by (simp add: serve_def split: prod.splits option.splits)

text \<open>A request that is turned away leaves the database as it is.\<close>

lemma serve_rejected_db: "rejected (fst (serve s r)) \<Longrightarrow> db (snd (serve s r)) = db s"
  using route_not_rejected [of "db s" r]
  by (auto simp: serve_def split: prod.splits option.splits)

lemma serve_all_snoc:
  "serve_all s (rs @ [r])
   = (snd (serve (fst (serve_all s rs)) r),
      snd (serve_all s rs) @ [(r, fst (serve (fst (serve_all s rs)) r))])"
  by (simp add: serve_all_def serve_step_def split: prod.splits)

lemma serve_all_Nil: "serve_all s [] = (s, [])"
  by (simp add: serve_all_def)

lemma accepted_times_snoc:
  "accepted_times ip (out @ [(r, resp)])
   = accepted_times ip out @ (if req_ip r = ip \<and> \<not> rejected resp then [arrival r] else [])"
  by (simp add: accepted_times_def)

text \<open>
  The array the map holds for an address is not the whole history, but it agrees with
  the history on every window that matters later: for a time \<open>t\<close> not before any
  request served so far, the stored times younger than \<open>t\<close> minus the window are the
  times of the requests of that address that were let through and are that young.
\<close>

lemma stored_window:
  assumes "sorted (map arrival rs)" and "\<forall>x\<in>set rs. arrival x \<le> t"
  shows "filter (\<lambda>x. t - RATE_LIMIT_WINDOW < x)
           (get_or_empty (requestCounts (fst (serve_all (start d) rs))) ip)
         = filter (\<lambda>x. t - RATE_LIMIT_WINDOW < x)
             (accepted_times ip (snd (serve_all (start d) rs)))"
  using assms
proof (induction rs arbitrary: t rule: rev_induct)
  case Nil
  show ?case by (simp add: serve_all_Nil start_def get_or_empty_def accepted_times_def)
next
  case (snoc r rs)
  let ?s = "fst (serve_all (start d) rs)"
  let ?out = "snd (serve_all (start d) rs)"
  let ?n = "arrival r"
  from snoc.prems(1) have sorted: "sorted (map arrival rs)"
    and before: "\<forall>x\<in>set rs. arrival x \<le> ?n"
    by (auto simp: sorted_append)
  from snoc.prems(2) have t: "?n \<le> t" and bound: "\<forall>x\<in>set rs. arrival x \<le> t" by auto
  show ?case
  proof (cases "req_ip r = ip")
    case False
    with snoc.IH [OF sorted bound] show ?thesis
      by (simp add: serve_all_snoc serve_counts rateLimit_stored accepted_times_snoc)
  next
    case True
    let ?young = "filter (\<lambda>x. ?n - RATE_LIMIT_WINDOW < x) (get_or_empty (requestCounts ?s) ip)"
    have young: "?young = filter (\<lambda>x. ?n - RATE_LIMIT_WINDOW < x) (accepted_times ip ?out)"
      by (rule snoc.IH [OF sorted before])
    have narrow: "filter (\<lambda>x. t - RATE_LIMIT_WINDOW < x) ?young
                  = filter (\<lambda>x. t - RATE_LIMIT_WINDOW < x) (accepted_times ip ?out)"
      unfolding young using t by (auto simp: filter_filter intro: filter_cong)
    show ?thesis
    proof (cases "rejected (fst (serve ?s r))")
      case True
      with \<open>req_ip r = ip\<close> narrow show ?thesis
        using serve_rejected [of ?s r]
        by (simp add: serve_all_snoc serve_counts rateLimit_stored accepted_times_snoc Let_def)
    next
      case False
      with \<open>req_ip r = ip\<close> narrow show ?thesis
        using serve_rejected [of ?s r]
        by (simp add: serve_all_snoc serve_counts rateLimit_stored accepted_times_snoc Let_def)
    qed
  qed
qed

lemma length_filter_mono:
  "(\<And>x. P x \<Longrightarrow> Q x) \<Longrightarrow> length (filter P xs) \<le> length (filter Q xs)"
  by (induction xs) auto

text \<open>In every window of one minute, open at its start and closed at its end, at most
  \<open>RATE_LIMIT\<close> requests of an address are let through.\<close>

lemma window_bound:
  assumes "sorted (map arrival rs)"
  shows "length (filter (\<lambda>x. w < x \<and> x \<le> w + RATE_LIMIT_WINDOW)
                   (accepted_times ip (snd (serve_all (start d) rs)))) \<le> RATE_LIMIT"
  using assms
proof (induction rs rule: rev_induct)
  case Nil
  show ?case by (simp add: serve_all_Nil accepted_times_def)
next
  case (snoc r rs)
  let ?s = "fst (serve_all (start d) rs)"
  let ?out = "snd (serve_all (start d) rs)"
  let ?n = "arrival r"
  let ?win = "\<lambda>x. w < x \<and> x \<le> w + RATE_LIMIT_WINDOW"
  from snoc.prems have sorted: "sorted (map arrival rs)"
    and before: "\<forall>x\<in>set rs. arrival x \<le> ?n"
    by (auto simp: sorted_append)
  note IH = snoc.IH [OF sorted]
  show ?case
  proof (cases "req_ip r = ip \<and> \<not> rejected (fst (serve ?s r)) \<and> ?win ?n")
    case False
    with IH show ?thesis by (auto simp: serve_all_snoc accepted_times_snoc)
  next
    case True
    then have same: "req_ip r = ip" and ok: "\<not> rejected (fst (serve ?s r))"
      and inside: "?win ?n" by auto
    from ok same
    have "length (filter (\<lambda>x. ?n - RATE_LIMIT_WINDOW < x)
                    (get_or_empty (requestCounts ?s) ip)) < RATE_LIMIT"
      by (simp add: serve_rejected)
    then have few: "length (filter (\<lambda>x. ?n - RATE_LIMIT_WINDOW < x) (accepted_times ip ?out))
                    < RATE_LIMIT"
      by (simp only: stored_window [OF sorted before])
    have "length (filter ?win (accepted_times ip ?out))
          \<le> length (filter (\<lambda>x. ?n - RATE_LIMIT_WINDOW < x) (accepted_times ip ?out))"
      using inside by (intro length_filter_mono) auto
    with few have "length (filter ?win (accepted_times ip ?out)) < RATE_LIMIT" by simp
    with True show ?thesis by (simp add: serve_all_snoc accepted_times_snoc)
  qed
qed

text \<open>
  C9, as amended. When the clock does not run backwards from one request to the next:
  for every client address and every window of one minute, open at its start and
  closed at its end, at most 100 of its requests get past the rate limiter; and a
  request that arrives when 100 or more requests of its address that were let through
  lie within the 60 seconds before it is answered with the rate-limit error and leaves
  the database untouched. Requests that were turned away are not recorded and do not
  count.
\<close>

theorem rateLimit_sliding_window:
  assumes "sorted (map arrival (rs @ [r]))"
  shows "length (filter (\<lambda>x. w < x \<and> x \<le> w + RATE_LIMIT_WINDOW)
                   (accepted_times ip (snd (serve_all (start d) (rs @ [r]))))) \<le> RATE_LIMIT
         \<and> (RATE_LIMIT \<le> length (filter (\<lambda>x. arrival r - RATE_LIMIT_WINDOW < x)
                                     (accepted_times (req_ip r) (snd (serve_all (start d) rs))))
            \<longrightarrow> rejected (fst (serve (fst (serve_all (start d) rs)) r))
                \<and> db (snd (serve (fst (serve_all (start d) rs)) r))
                  = db (fst (serve_all (start d) rs)))"
proof
  show "length (filter (\<lambda>x. w < x \<and> x \<le> w + RATE_LIMIT_WINDOW)
                  (accepted_times ip (snd (serve_all (start d) (rs @ [r]))))) \<le> RATE_LIMIT"
    by (rule window_bound [OF assms])
next
  let ?s = "fst (serve_all (start d) rs)"
  from assms have sorted: "sorted (map arrival rs)"
    and before: "\<forall>x\<in>set rs. arrival x \<le> arrival r"
    by (auto simp: sorted_append)
  show "RATE_LIMIT \<le> length (filter (\<lambda>x. arrival r - RATE_LIMIT_WINDOW < x)
                                (accepted_times (req_ip r) (snd (serve_all (start d) rs))))
        \<longrightarrow> rejected (fst (serve ?s r)) \<and> db (snd (serve ?s r)) = db ?s"
  proof
    assume "RATE_LIMIT \<le> length (filter (\<lambda>x. arrival r - RATE_LIMIT_WINDOW < x)
                                (accepted_times (req_ip r) (snd (serve_all (start d) rs))))"
    then have "rejected (fst (serve ?s r))"
      by (simp only: serve_rejected stored_window [OF sorted before])
    then show "rejected (fst (serve ?s r)) \<and> db (snd (serve ?s r)) = db ?s"
      by (simp add: serve_rejected_db)
  qed
qed

text \<open>A hundred requests from one address at time 1000, let through, and one more a
  second later.\<close>

theorem rateLimit_sliding_window_witness:
  "sorted (map arrival (replicate 100 (stats_request 1000) @ [stats_request 2000]))
   \<and> RATE_LIMIT \<le> length (filter (\<lambda>x. arrival (stats_request 2000) - RATE_LIMIT_WINDOW < x)
        (accepted_times (req_ip (stats_request 2000))
           (snd (serve_all (start fresh_database) (replicate 100 (stats_request 1000))))))
   \<and> length (filter (\<lambda>x. 0 < x \<and> x \<le> 0 + RATE_LIMIT_WINDOW)
        (accepted_times ''10.0.0.1''
           (snd (serve_all (start fresh_database)
                  (replicate 100 (stats_request 1000) @ [stats_request 2000]))))) \<le> RATE_LIMIT
   \<and> rejected (fst (serve (fst (serve_all (start fresh_database)
                                  (replicate 100 (stats_request 1000))))
                       (stats_request 2000)))
   \<and> db (snd (serve (fst (serve_all (start fresh_database)
                             (replicate 100 (stats_request 1000))))
                  (stats_request 2000)))
     = db (fst (serve_all (start fresh_database) (replicate 100 (stats_request 1000))))"
proof -
  have order: "sorted (map arrival (replicate 100 (stats_request 1000) @ [stats_request 2000]))"
    by (simp add: sorted_append stats_request_def)
  have full: "RATE_LIMIT \<le> length (filter (\<lambda>x. arrival (stats_request 2000) - RATE_LIMIT_WINDOW < x)
        (accepted_times (req_ip (stats_request 2000))
           (snd (serve_all (start fresh_database) (replicate 100 (stats_request 1000))))))"
    by code_simp
  from rateLimit_sliding_window
         [OF order, where w = 0 and ip = "''10.0.0.1''" and d = fresh_database]
       order full
  show ?thesis by blast
qed

text \<open>
  C9, as stated, fails in two ways. The claim counts the requests that lie within the
  preceding 60 seconds; the map records only those that were let through. After 100
  requests at time 0, which pass, and 100 at time 59999, which are all turned away, a
  request at time 60000 passes although 100 requests of its address arrived within the
  minute before it. And the bound on a window needs the order of the clock: when the
  clock steps back from 200000 to 100000 after 100 requests at 100000 and one at
  200000, the next request passes as well, the 101st of the window that ends at 100000.
\<close>

theorem rateLimit_counts_only_accepted_counterexample:
  "RATE_LIMIT \<le> requests_within ''10.0.0.1'' 60000
                   (replicate 100 (stats_request 0) @ replicate 100 (stats_request 59999))
   \<and> \<not> rejected (fst (serve (fst (serve_all (start fresh_database)
                                       (replicate 100 (stats_request 0)
                                        @ replicate 100 (stats_request 59999))))
                           (stats_request 60000)))
   \<and> RATE_LIMIT < accepted_within ''10.0.0.1'' 40000
                    (snd (serve_all (start fresh_database)
                            (replicate 100 (stats_request 100000)
                             @ [stats_request 200000, stats_request 100000])))"
proof (intro conjI)
  show "RATE_LIMIT \<le> requests_within ''10.0.0.1'' 60000
                   (replicate 100 (stats_request 0) @ replicate 100 (stats_request 59999))"
    by code_simp
  show "\<not> rejected (fst (serve (fst (serve_all (start fresh_database)
                                       (replicate 100 (stats_request 0)
                                        @ replicate 100 (stats_request 59999))))
                           (stats_request 60000)))"
    by code_simp
  show "RATE_LIMIT < accepted_within ''10.0.0.1'' 40000
                    (snd (serve_all (start fresh_database)
                            (replicate 100 (stats_request 100000)
                             @ [stats_request 200000, stats_request 100000])))"
    by code_simp
qed

end
